theory Spec2Isabelle
  imports Complex_Main "HOL-Library.Word" "HOL-Library.AList"
begin

section \<open>Protocol constants\<close>

text \<open>The constants at the top of \<^verbatim>\<open>Server.py\<close> and \<^verbatim>\<open>Client.py\<close> (the same in both files).\<close>

definition MAGIC :: int where "MAGIC = 0xC461"
definition VERSION :: int where "VERSION = 1"
definition CMD_HELLO :: int where "CMD_HELLO = 0"
definition CMD_DATA :: int where "CMD_DATA = 1"
definition CMD_ALIVE :: int where "CMD_ALIVE = 2"
definition CMD_GOODBYE :: int where "CMD_GOODBYE = 3"

section \<open>Bytes and the \<^verbatim>\<open>struct\<close> format \<^verbatim>\<open>!HBBIIQQ\<close>\<close>

type_synonym byte = "8 word"
type_synonym bytes = "byte list"
type_synonym addr = "string \<times> int"

text \<open>
  Python integers are unbounded, so every field is an \<^typ>\<open>int\<close>. \<^verbatim>\<open>struct.pack\<close> raises
  \<^verbatim>\<open>struct.error\<close> when a value does not fit its field; a dictionary lookup of an absent key
  raises \<^verbatim>\<open>KeyError\<close>.
\<close>

datatype exn = StructError | KeyError

text \<open>An unsigned big-endian field of \<open>n\<close> bytes (network byte order, \<^verbatim>\<open>!\<close>).\<close>

fun be_bytes :: "nat \<Rightarrow> int \<Rightarrow> bytes" where
  "be_bytes 0 v = []"
| "be_bytes (Suc n) v = be_bytes n (v div 256) @ [word_of_int (v mod 256)]"

definition be_int :: "bytes \<Rightarrow> int" where
  "be_int bs = foldl (\<lambda>acc b. acc * 256 + uint b) 0 bs"

text \<open>A value fits an unsigned field of the given number of bits.\<close>

definition fits :: "nat \<Rightarrow> int \<Rightarrow> bool" where
  "fits bits v \<longleftrightarrow> 0 \<le> v \<and> v < 2 ^ bits"

text \<open>\<^verbatim>\<open>struct.pack('!HBBIIQQ', h, b1, b2, i1, i2, q1, q2)\<close>: 2+1+1+4+4+8+8 = 28 bytes.\<close>

definition struct_pack ::
  "int \<Rightarrow> int \<Rightarrow> int \<Rightarrow> int \<Rightarrow> int \<Rightarrow> int \<Rightarrow> int \<Rightarrow> exn + bytes" where
  "struct_pack h b1 b2 i1 i2 q1 q2 =
     (if fits 16 h \<and> fits 8 b1 \<and> fits 8 b2 \<and> fits 32 i1 \<and> fits 32 i2 \<and> fits 64 q1 \<and> fits 64 q2
      then Inr (be_bytes 2 h @ be_bytes 1 b1 @ be_bytes 1 b2 @ be_bytes 4 i1 @ be_bytes 4 i2
                @ be_bytes 8 q1 @ be_bytes 8 q2)
      else Inl StructError)"

text \<open>
  \<^verbatim>\<open>struct.unpack('!HBBIIQQ', data[:28])\<close>. Both callers test \<^verbatim>\<open>len(data) < 28\<close> first, so
  the buffer handed over always has exactly 28 bytes.
\<close>

definition struct_unpack :: "bytes \<Rightarrow> int \<times> int \<times> int \<times> int \<times> int \<times> int \<times> int" where
  "struct_unpack bs =
     (be_int (take 2 bs), be_int (take 1 (drop 2 bs)), be_int (take 1 (drop 3 bs)),
      be_int (take 4 (drop 4 bs)), be_int (take 4 (drop 8 bs)),
      be_int (take 8 (drop 12 bs)), be_int (take 8 (drop 20 bs)))"

section \<open>The environment: wall clock, console and socket\<close>

text \<open>
  \<^verbatim>\<open>time.time()\<close> is an input of the program: \<open>wall e n\<close> is what its \<open>n\<close>-th call returns
  (seconds, read as a real number), and \<open>ticks\<close> counts the calls made so far.
  \<open>decode_strip\<close> stands for the library expression
  \<^verbatim>\<open>data.decode('utf-8', errors='ignore').strip()\<close>.
  Everything the program prints or hands to \<^verbatim>\<open>sock.sendto\<close> is appended to \<open>outputs\<close>;
  a printed line is kept as the event it reports together with the numbers it shows.
\<close>

record env =
  wall :: "nat \<Rightarrow> real"
  decode_strip :: "bytes \<Rightarrow> string"

datatype report =
    Protocol_error int
  | Session_created int
  | Duplicate_packet int int
  | Lost_packet int int
  | Data_text int int string
  | Goodbye_from_client int int
  | Session_closed int
  | Session_timeout int
  | Connected
  | Alive_received real
  | Server_sent_goodbye
  | Timeout_no_response
  | Session_started int
  | Sent_line string
  | Eof

datatype out_event = Sendto bytes addr | Print report

record io =
  ticks :: nat
  outputs :: "out_event list"

definition time_time :: "env \<Rightarrow> io \<Rightarrow> real \<times> io" where
  "time_time e w = (wall e (ticks w), w\<lparr>ticks := Suc (ticks w)\<rparr>)"

definition print :: "report \<Rightarrow> io \<Rightarrow> io" where
  "print r w = w\<lparr>outputs := outputs w @ [Print r]\<rparr>"

definition sendto :: "bytes \<Rightarrow> addr \<Rightarrow> io \<Rightarrow> io" where
  "sendto m a w = w\<lparr>outputs := outputs w @ [Sendto m a]\<rparr>"

text \<open>Python's \<^verbatim>\<open>int(x)\<close> on a float truncates towards zero.\<close>

definition py_int :: "real \<Rightarrow> int" where
  "py_int x = (if 0 \<le> x then \<lfloor>x\<rfloor> else \<lceil>x\<rceil>)"

text \<open>The datagrams handed to the socket, in order, and the lost-packet reports printed.\<close>

fun sent :: "out_event list \<Rightarrow> (bytes \<times> addr) list" where
  "sent [] = []"
| "sent (Sendto m a # os) = (m, a) # sent os"
| "sent (Print r # os) = sent os"

fun lost_reports :: "out_event list \<Rightarrow> int list" where
  "lost_reports [] = []"
| "lost_reports (Print (Lost_packet sid n) # os) = n # lost_reports os"
| "lost_reports (x # os) = lost_reports os"

section \<open>Server: class \<^verbatim>\<open>Session\<close>\<close>

record session =
  session_id :: int
  addr :: addr
  expected_seq :: int
  last_activity :: real
  active :: bool
  logical_clock :: int

text \<open>\<^verbatim>\<open>Session.__init__\<close> (the socket is the server's single socket and is not kept).\<close>

definition Session :: "env \<Rightarrow> int \<Rightarrow> addr \<Rightarrow> io \<Rightarrow> session \<times> io" where
  "Session e sid a w =
     (let (t, w1) = time_time e w
      in (\<lparr>session_id = sid, addr = a, expected_seq = 0, last_activity = t,
           active = True, logical_clock = 0\<rparr>, w1))"

definition update_clock :: "session \<Rightarrow> int option \<Rightarrow> int \<times> session" where
  "update_clock s received_clock =
     (let s1 = (case received_clock of
                  None \<Rightarrow> s
                | Some rc \<Rightarrow> s\<lparr>logical_clock := max (logical_clock s) rc\<rparr>);
          s2 = s1\<lparr>logical_clock := logical_clock s1 + 1\<rparr>
      in (logical_clock s2, s2))"

text \<open>
  The functions below return the session and the environment as they are when the call ends,
  also when it ends by an exception: the assignments made before a raise stay.
\<close>

definition create_message ::
  "env \<Rightarrow> session \<Rightarrow> int \<Rightarrow> int \<Rightarrow> bytes \<Rightarrow> io \<Rightarrow> (exn + bytes) \<times> session \<times> io" where
  "create_message e s command seq_num data w =
     (let (clock, s1) = update_clock s None;
          (t, w1) = time_time e w;
          timestamp = py_int (t * 1000)
      in case struct_pack MAGIC VERSION command seq_num (session_id s1) clock timestamp of
           Inl x \<Rightarrow> (Inl x, s1, w1)
         | Inr header \<Rightarrow> (Inr (header @ data), s1, w1))"

definition send_message ::
  "env \<Rightarrow> session \<Rightarrow> int \<Rightarrow> int \<Rightarrow> bytes \<Rightarrow> io \<Rightarrow> exn option \<times> session \<times> io" where
  "send_message e s command seq_num data w =
     (case create_message e s command seq_num data w of
        (Inl x, s1, w1) \<Rightarrow> (Some x, s1, w1)
      | (Inr message, s1, w1) \<Rightarrow> (None, s1, sendto message (addr s1) w1))"

text \<open>The header tuple handed to the handlers: (command, seq_num, logical_clock, timestamp).\<close>

type_synonym header = "int \<times> int \<times> int \<times> int"

definition handle_hello :: "env \<Rightarrow> session \<Rightarrow> header \<Rightarrow> io \<Rightarrow> exn option \<times> session \<times> io" where
  "handle_hello e s hdr w =
     (case hdr of (command, seq_num, lclock, timestamp) \<Rightarrow>
        if expected_seq s \<noteq> 0 then
          (let w1 = print (Protocol_error (session_id s)) w;
               (r, s1, w2) = send_message e s CMD_GOODBYE (expected_seq s) [] w1
           in case r of
                Some x \<Rightarrow> (Some x, s1, w2)
              | None \<Rightarrow> (None, s1\<lparr>active := False\<rparr>, w2))
        else
          (let w1 = print (Session_created (session_id s)) w;
               (c, s1) = update_clock s (Some lclock);
               (r, s2, w2) = send_message e s1 CMD_HELLO (expected_seq s1) [] w1
           in case r of
                Some x \<Rightarrow> (Some x, s2, w2)
              | None \<Rightarrow> (None, s2\<lparr>expected_seq := expected_seq s2 + 1\<rparr>, w2)))"

text \<open>The loop \<^verbatim>\<open>while self.expected_seq < seq_num\<close> of \<^verbatim>\<open>handle_data\<close>.\<close>

function lost_loop :: "session \<Rightarrow> int \<Rightarrow> io \<Rightarrow> session \<times> io" where
  "lost_loop s seq_num w =
     (if expected_seq s < seq_num
      then lost_loop (s\<lparr>expected_seq := expected_seq s + 1\<rparr>) seq_num
             (print (Lost_packet (session_id s) (expected_seq s)) w)
      else (s, w))"
  by pat_completeness auto
termination
  by (relation "measure (\<lambda>(s, n, w). nat (n - expected_seq s))") auto

declare lost_loop.simps [simp del]

definition handle_data ::
  "env \<Rightarrow> session \<Rightarrow> header \<Rightarrow> bytes \<Rightarrow> io \<Rightarrow> exn option \<times> session \<times> io" where
  "handle_data e s hdr data w =
     (case hdr of (command, seq_num, lclock, timestamp) \<Rightarrow>
        if seq_num < expected_seq s then
          (None, s, print (Duplicate_packet (session_id s) seq_num) w)
        else
          (let (s1, w1) = lost_loop s seq_num w;
               text = decode_strip e data;
               w2 = (if text \<noteq> [] then print (Data_text (session_id s1) seq_num text) w1 else w1);
               (c, s2) = update_clock s1 (Some lclock);
               (r, s3, w3) = send_message e s2 CMD_ALIVE (expected_seq s2) [] w2
           in case r of
                Some x \<Rightarrow> (Some x, s3, w3)
              | None \<Rightarrow>
                  (let s4 = s3\<lparr>expected_seq := expected_seq s3 + 1\<rparr>;
                       (t, w4) = time_time e w3;
                       s5 = s4\<lparr>last_activity := t\<rparr>;
                       (t', w5) = time_time e w4
                   in (None, s5, w5))))"

definition handle_goodbye :: "env \<Rightarrow> session \<Rightarrow> header \<Rightarrow> io \<Rightarrow> exn option \<times> session \<times> io" where
  "handle_goodbye e s hdr w =
     (case hdr of (command, seq_num, lclock, timestamp) \<Rightarrow>
        (let w1 = print (Goodbye_from_client (session_id s) seq_num) w;
             (c, s1) = update_clock s (Some lclock);
             (r, s2, w2) = send_message e s1 CMD_GOODBYE (expected_seq s1) [] w1
         in case r of
              Some x \<Rightarrow> (Some x, s2, w2)
            | None \<Rightarrow> (None, s2\<lparr>active := False\<rparr>, print (Session_closed (session_id s2)) w2)))"

definition check_timeout :: "env \<Rightarrow> session \<Rightarrow> io \<Rightarrow> (exn + bool) \<times> session \<times> io" where
  "check_timeout e s w =
     (let (t, w1) = time_time e w
      in if t - last_activity s > 10 \<and> active s then
           (let w2 = print (Session_timeout (session_id s)) w1;
                (r, s1, w3) = send_message e s CMD_GOODBYE (expected_seq s) [] w2
            in case r of
                 Some x \<Rightarrow> (Inl x, s1, w3)
               | None \<Rightarrow> (Inr True, s1\<lparr>active := False\<rparr>, w3))
         else (Inr False, s, w1))"

section \<open>Server: class \<^verbatim>\<open>UDPServer\<close>\<close>

text \<open>
  The dictionary \<^verbatim>\<open>self.sessions\<close> is an association list in insertion order, the order
  in which \<^verbatim>\<open>list(self.sessions.keys())\<close> walks it: \<^const>\<open>map_of\<close> looks a key up,
  \<^const>\<open>AList.update\<close> stores at the key's place (a new key at the end), \<^const>\<open>AList.delete\<close>
  is \<^verbatim>\<open>del\<close>. A session is an object shared with the table, so what a handler assigns to
  it is written back under its key.
\<close>

record server =
  sessions :: "(int \<times> session) list"
  running :: bool

definition parse_message :: "bytes \<Rightarrow> ((int \<times> int \<times> int \<times> int \<times> int) \<times> bytes) option" where
  "parse_message data =
     (if length data < 28 then None
      else case struct_unpack (take 28 data) of
        (magic, version, command, seq_num, sid, lclock, timestamp) \<Rightarrow>
          if magic \<noteq> MAGIC \<or> version \<noteq> VERSION then None
          else Some ((command, seq_num, sid, lclock, timestamp), drop 28 data))"

definition handle_packet ::
  "env \<Rightarrow> server \<Rightarrow> bytes \<Rightarrow> addr \<Rightarrow> io \<Rightarrow> exn option \<times> server \<times> io" where
  "handle_packet e srv data a w =
     (case parse_message data of
        None \<Rightarrow> (None, srv, w)
      | Some ((command, seq_num, sid, lclock, timestamp), payload) \<Rightarrow>
          if map_of (sessions srv) sid = None \<and> command \<noteq> CMD_HELLO then (None, srv, w)
          else
            (let (srv1, w1) =
                   (if map_of (sessions srv) sid = None
                    then (let (s0, w0) = Session e sid a w
                          in (srv\<lparr>sessions := AList.update sid s0 (sessions srv)\<rparr>, w0))
                    else (srv, w))
             in case map_of (sessions srv1) sid of
                  None \<Rightarrow> (Some KeyError, srv1, w1)
                | Some s \<Rightarrow>
                    if command = CMD_HELLO then
                      (let (r, s', w2) = handle_hello e s (command, seq_num, lclock, timestamp) w1
                       in (r, srv1\<lparr>sessions := AList.update sid s' (sessions srv1)\<rparr>, w2))
                    else if command = CMD_DATA then
                      (let (r, s', w2) =
                             handle_data e s (command, seq_num, lclock, timestamp) payload w1
                       in (r, srv1\<lparr>sessions := AList.update sid s' (sessions srv1)\<rparr>, w2))
                    else if command = CMD_GOODBYE then
                      (let (r, s', w2) = handle_goodbye e s (command, seq_num, lclock, timestamp) w1
                       in case r of
                            Some x \<Rightarrow>
                              (Some x, srv1\<lparr>sessions := AList.update sid s' (sessions srv1)\<rparr>, w2)
                          | None \<Rightarrow>
                              (None, srv1\<lparr>sessions := AList.delete sid (sessions srv1)\<rparr>, w2))
                    else (None, srv1, w1)))"

text \<open>
  The idle sweep at the head of the loop body of \<^verbatim>\<open>run\<close>:
  \<^verbatim>\<open>for session_id in list(self.sessions.keys())\<close>, over the snapshot of the keys. It is
  outside the \<^verbatim>\<open>try\<close>, so an exception raised there leaves \<^verbatim>\<open>run\<close>.
\<close>

fun sweep_keys :: "env \<Rightarrow> int list \<Rightarrow> server \<Rightarrow> io \<Rightarrow> exn option \<times> server \<times> io" where
  "sweep_keys e [] srv w = (None, srv, w)"
| "sweep_keys e (sid # ks) srv w =
     (case map_of (sessions srv) sid of
        None \<Rightarrow> (Some KeyError, srv, w)
      | Some s \<Rightarrow>
          (case check_timeout e s w of
             (Inl x, s', w1) \<Rightarrow> (Some x, srv\<lparr>sessions := AList.update sid s' (sessions srv)\<rparr>, w1)
           | (Inr True, s', w1) \<Rightarrow>
               sweep_keys e ks (srv\<lparr>sessions := AList.delete sid (sessions srv)\<rparr>) w1
           | (Inr False, s', w1) \<Rightarrow>
               sweep_keys e ks (srv\<lparr>sessions := AList.update sid s' (sessions srv)\<rparr>) w1))"

definition sweep :: "env \<Rightarrow> server \<Rightarrow> io \<Rightarrow> exn option \<times> server \<times> io" where
  "sweep e srv w = sweep_keys e (map fst (sessions srv)) srv w"

text \<open>
  One pass of the body of \<^verbatim>\<open>while self.running\<close>: the sweep, then \<^verbatim>\<open>select\<close>. The argument
  \<open>inp\<close> is the datagram \<^verbatim>\<open>recvfrom\<close> delivers, \<open>None\<close> when the socket is not readable
  within the second. An exception of \<^verbatim>\<open>handle_packet\<close> is caught by the bare \<^verbatim>\<open>except\<close>,
  which clears \<^verbatim>\<open>self.running\<close>.
\<close>

definition run_iteration ::
  "env \<Rightarrow> server \<Rightarrow> (bytes \<times> addr) option \<Rightarrow> io \<Rightarrow> exn option \<times> server \<times> io" where
  "run_iteration e srv inp w =
     (case sweep e srv w of
        (Some x, srv1, w1) \<Rightarrow> (Some x, srv1, w1)
      | (None, srv1, w1) \<Rightarrow>
          (case inp of
             None \<Rightarrow> (None, srv1, w1)
           | Some (data, a) \<Rightarrow>
               (case handle_packet e srv1 data a w1 of
                  (Some x, srv2, w2) \<Rightarrow> (None, srv2\<lparr>running := False\<rparr>, w2)
                | (None, srv2, w2) \<Rightarrow> (None, srv2, w2))))"

text \<open>
  The first passes of the loop of \<^verbatim>\<open>run\<close>, one per element of the list; the loop is left
  when \<^verbatim>\<open>self.running\<close> is cleared or an exception escapes.
\<close>

fun run_iterations ::
  "env \<Rightarrow> (bytes \<times> addr) option list \<Rightarrow> server \<Rightarrow> io \<Rightarrow> exn option \<times> server \<times> io" where
  "run_iterations e [] srv w = (None, srv, w)"
| "run_iterations e (inp # inps) srv w =
     (if running srv then
        (case run_iteration e srv inp w of
           (Some x, srv1, w1) \<Rightarrow> (Some x, srv1, w1)
         | (None, srv1, w1) \<Rightarrow> run_iterations e inps srv1 w1)
      else (None, srv, w))"

section \<open>Client: class \<^verbatim>\<open>UDPClient\<close>\<close>

text \<open>
  The fields the client shares by name with the server's classes carry the suffix \<open>_c\<close>.
  \<open>state\<close> holds the strings of the source. There is no state named \<^verbatim>\<open>TERMINATED\<close> in
  the code: the client is terminated when \<^verbatim>\<open>self.running\<close> is false.
\<close>

record client =
  server_addr :: addr
  session_id_c :: int
  seq_num :: int
  logical_clock_c :: int
  expected_seq_c :: int
  state :: string
  running_c :: bool
  timeout :: real
  last_sent_time :: real
  pending_ack :: bool

text \<open>\<^verbatim>\<open>UDPClient.__init__\<close>; \<open>sid\<close> is the result of \<^verbatim>\<open>random.randint(0, 0xFFFFFFFF)\<close>.\<close>

definition UDPClient :: "addr \<Rightarrow> int \<Rightarrow> client" where
  "UDPClient a sid =
     \<lparr>server_addr = a, session_id_c = sid, seq_num = 0, logical_clock_c = 0,
      expected_seq_c = 0, state = ''INIT'', running_c = True, timeout = 5,
      last_sent_time = 0, pending_ack = False\<rparr>"

definition update_clock_c :: "client \<Rightarrow> int option \<Rightarrow> int \<times> client" where
  "update_clock_c c received_clock =
     (let c1 = (case received_clock of
                  None \<Rightarrow> c
                | Some rc \<Rightarrow> c\<lparr>logical_clock_c := max (logical_clock_c c) rc\<rparr>);
          c2 = c1\<lparr>logical_clock_c := logical_clock_c c1 + 1\<rparr>
      in (logical_clock_c c2, c2))"

definition create_message_c ::
  "env \<Rightarrow> client \<Rightarrow> int \<Rightarrow> bytes \<Rightarrow> io \<Rightarrow> (exn + bytes) \<times> client \<times> io" where
  "create_message_c e c command data w =
     (let (clock, c1) = update_clock_c c None;
          (t, w1) = time_time e w;
          timestamp = py_int (t * 1000)
      in case struct_pack MAGIC VERSION command (seq_num c1) (session_id_c c1) clock timestamp of
           Inl x \<Rightarrow> (Inl x, c1, w1)
         | Inr header \<Rightarrow> (Inr (header @ data), c1, w1))"

definition send_message_c ::
  "env \<Rightarrow> client \<Rightarrow> int \<Rightarrow> bytes \<Rightarrow> io \<Rightarrow> (exn + int) \<times> client \<times> io" where
  "send_message_c e c command data w =
     (case create_message_c e c command data w of
        (Inl x, c1, w1) \<Rightarrow> (Inl x, c1, w1)
      | (Inr message, c1, w1) \<Rightarrow>
          (let w2 = sendto message (server_addr c1) w1;
               (t, w3) = time_time e w2;
               c2 = c1\<lparr>last_sent_time := t\<rparr>;
               c3 = c2\<lparr>pending_ack := True\<rparr>
           in (Inr (seq_num c3), c3, w3)))"

definition parse_message_c :: "client \<Rightarrow> bytes \<Rightarrow> (header \<times> bytes) option" where
  "parse_message_c c data =
     (if length data < 28 then None
      else case struct_unpack (take 28 data) of
        (magic, version, command, seq, sid, lclock, timestamp) \<Rightarrow>
          if magic \<noteq> MAGIC \<or> version \<noteq> VERSION \<or> sid \<noteq> session_id_c c then None
          else Some ((command, seq, lclock, timestamp), drop 28 data))"

text \<open>
  One pass of the loop of \<^verbatim>\<open>listen_server\<close>, entered when \<^verbatim>\<open>self.running\<close> holds;
  \<open>recv\<close> is the datagram \<^verbatim>\<open>recvfrom\<close> returns, \<open>None\<close> when it raises
  \<^verbatim>\<open>socket.timeout\<close>.
\<close>

definition listen_server :: "env \<Rightarrow> client \<Rightarrow> bytes option \<Rightarrow> io \<Rightarrow> client \<times> io" where
  "listen_server e c recv w =
     (if \<not> running_c c then (c, w)
      else case recv of
        None \<Rightarrow> (c, w)
      | Some data \<Rightarrow>
          (case parse_message_c c data of
             None \<Rightarrow> (c, w)
           | Some ((command, seq, lclock, timestamp), payload) \<Rightarrow>
               (let c1 = c\<lparr>pending_ack := False\<rparr>;
                    (k, c2) = update_clock_c c1 (Some lclock)
                in if command = CMD_HELLO \<and> state c2 = ''WAIT_HELLO'' then
                     (let c3 = c2\<lparr>state := ''READY''\<rparr>;
                          c4 = c3\<lparr>seq_num := seq_num c3 + 1\<rparr>
                      in (c4, print Connected w))
                   else if command = CMD_ALIVE \<and> state c2 = ''WAIT_ALIVE'' then
                     (let c3 = c2\<lparr>state := ''READY''\<rparr>;
                          c4 = c3\<lparr>seq_num := seq_num c3 + 1\<rparr>;
                          (t, w1) = time_time e w;
                          latency = t * 1000 - real_of_int timestamp
                      in (c4, print (Alive_received latency) w1))
                   else if command = CMD_GOODBYE then
                     (c2\<lparr>running_c := False\<rparr>, print Server_sent_goodbye w)
                   else (c2, w))))"

text \<open>
  One pass of the loop of \<^verbatim>\<open>check_timeout\<close> (the watchdog thread), after its
  \<^verbatim>\<open>time.sleep(0.1)\<close>. The clock is read only when \<^verbatim>\<open>self.pending_ack\<close> holds.
\<close>

definition check_timeout_c :: "env \<Rightarrow> client \<Rightarrow> io \<Rightarrow> client \<times> io" where
  "check_timeout_c e c w =
     (if \<not> running_c c then (c, w)
      else if pending_ack c then
        (let (t, w1) = time_time e w
         in if t - last_sent_time c > timeout c
            then (c\<lparr>running_c := False\<rparr>, print Timeout_no_response w1)
            else (c, w1))
      else (c, w))"

text \<open>
  The main thread, \<^verbatim>\<open>run\<close>. \<open>run_begin\<close> is the part before the input loop,
  \<open>run_loop_body\<close> one pass of \<^verbatim>\<open>while self.running\<close> and \<open>run_end\<close> the part after the
  loop. \<open>line\<close> is the value of \<^verbatim>\<open>sys.stdin.readline().strip()\<close> (empty at end of input),
  read only in state \<^verbatim>\<open>READY\<close>; \<^verbatim>\<open>line.encode('utf-8')\<close> takes each character of the
  string as one byte.
\<close>

datatype loop_exit = Continue | Break | Raise exn

definition run_begin :: "env \<Rightarrow> client \<Rightarrow> io \<Rightarrow> exn option \<times> client \<times> io" where
  "run_begin e c w =
     (let c1 = c\<lparr>state := ''WAIT_HELLO''\<rparr>
      in case send_message_c e c1 CMD_HELLO [] w of
           (Inl x, c2, w1) \<Rightarrow> (Some x, c2, w1)
         | (Inr n, c2, w1) \<Rightarrow> (None, c2, print (Session_started (session_id_c c2)) w1))"

definition run_loop_body :: "env \<Rightarrow> client \<Rightarrow> string \<Rightarrow> io \<Rightarrow> loop_exit \<times> client \<times> io" where
  "run_loop_body e c line w =
     (if state c = ''READY'' then
        (if line = [] \<or> line = ''q'' \<or> line = ''Q'' then (Break, c, w)
         else
           (let c1 = c\<lparr>state := ''WAIT_ALIVE''\<rparr>
            in case send_message_c e c1 CMD_DATA (map (\<lambda>ch. of_nat (of_char ch)) line) w of
                 (Inl x, c2, w1) \<Rightarrow> (Raise x, c2, w1)
               | (Inr n, c2, w1) \<Rightarrow> (Continue, c2, print (Sent_line line) w1)))
      else (Continue, c, w))"

definition run_end :: "env \<Rightarrow> client \<Rightarrow> io \<Rightarrow> exn option \<times> client \<times> io" where
  "run_end e c w =
     (if running_c c then
        (case send_message_c e c CMD_GOODBYE [] w of
           (Inl x, c1, w1) \<Rightarrow> (Some x, c1, w1)
         | (Inr n, c1, w1) \<Rightarrow> (None, c1\<lparr>running_c := False\<rparr>, print Eof w1))
      else (None, c\<lparr>running_c := False\<rparr>, print Eof w))"

text \<open>
  The three threads of the client share one object. An execution is a list of actions, each
  one pass of one thread's loop taken as a whole: a pass of the listener, a pass of the
  watchdog, a pass of the main loop, or a \<^verbatim>\<open>KeyboardInterrupt\<close> in the main thread (caught,
  so that \<^verbatim>\<open>run\<close> goes on after the loop). The main thread is in its loop (\<open>In_loop\<close>), has
  returned from \<^verbatim>\<open>run\<close> (\<open>Returned\<close>) or has left it by an exception (\<open>Crashed\<close>); the
  two other threads are daemons and end with it.
\<close>

datatype action = Listener "bytes option" | Watchdog | Main_loop string | Keyboard_interrupt

datatype main_thread = In_loop | Returned | Crashed exn

definition leave_loop :: "env \<Rightarrow> client \<Rightarrow> io \<Rightarrow> client \<times> main_thread \<times> io" where
  "leave_loop e c w =
     (case run_end e c w of
        (Some x, c1, w1) \<Rightarrow> (c1, Crashed x, w1)
      | (None, c1, w1) \<Rightarrow> (c1, Returned, w1))"

fun client_step ::
  "env \<Rightarrow> client \<times> main_thread \<times> io \<Rightarrow> action \<Rightarrow> client \<times> main_thread \<times> io" where
  "client_step e (c, In_loop, w) (Listener recv) =
     (let (c1, w1) = listen_server e c recv w in (c1, In_loop, w1))"
| "client_step e (c, In_loop, w) Watchdog =
     (let (c1, w1) = check_timeout_c e c w in (c1, In_loop, w1))"
| "client_step e (c, In_loop, w) (Main_loop line) =
     (if running_c c then
        (case run_loop_body e c line w of
           (Continue, c1, w1) \<Rightarrow> (c1, In_loop, w1)
         | (Break, c1, w1) \<Rightarrow> leave_loop e c1 w1
         | (Raise x, c1, w1) \<Rightarrow> (c1, Crashed x, w1))
      else leave_loop e c w)"
| "client_step e (c, In_loop, w) Keyboard_interrupt = leave_loop e c w"
| "client_step e (c, m, w) a = (c, m, w)"

definition client_run ::
  "env \<Rightarrow> client \<times> main_thread \<times> io \<Rightarrow> action list \<Rightarrow> client \<times> main_thread \<times> io" where
  "client_run e cfg acts = foldl (client_step e) cfg acts"

section \<open>Sequences of clock updates and example values\<close>

text \<open>
  The values \<^verbatim>\<open>update_clock\<close> returns over a sequence of calls on one session, and on one
  client; each element of the list is the argument \<^verbatim>\<open>received_clock\<close> of one call.
\<close>

fun update_clock_calls :: "session \<Rightarrow> int option list \<Rightarrow> int list" where
  "update_clock_calls s [] = []"
| "update_clock_calls s (rc # rcs) =
     (let (k, s1) = update_clock s rc in k # update_clock_calls s1 rcs)"

fun update_clock_calls_c :: "client \<Rightarrow> int option list \<Rightarrow> int list" where
  "update_clock_calls_c c [] = []"
| "update_clock_calls_c c (rc # rcs) =
     (let (k, c1) = update_clock_c c rc in k # update_clock_calls_c c1 rcs)"

text \<open>
  A concrete environment for the examples: the wall clock stands at 100 seconds, and the text
  of a payload is its bytes read as characters.
\<close>

definition example_addr :: addr where
  "example_addr = (''127.0.0.1'', 5000)"

definition example_env :: env where
  "example_env = \<lparr>wall = (\<lambda>n. 100), decode_strip = map (\<lambda>b. char_of (unat b))\<rparr>"

definition example_io :: io where
  "example_io = \<lparr>ticks = 0, outputs = []\<rparr>"

definition example_session :: session where
  "example_session = \<lparr>session_id = 7, addr = example_addr, expected_seq = 1,
     last_activity = 100, active = True, logical_clock = 3\<rparr>"

definition example_client :: client where
  "example_client = UDPClient (''localhost'', 9000) 7"

text \<open>
  The datagram a peer puts on the wire for given header fields and payload (empty when the
  fields cannot be packed), and the command and sequence number the server's
  \<^verbatim>\<open>parse_message\<close> reads in a datagram that was sent.
\<close>

definition datagram :: "int \<Rightarrow> int \<Rightarrow> int \<Rightarrow> int \<Rightarrow> int \<Rightarrow> bytes \<Rightarrow> bytes" where
  "datagram command seq sid clock timestamp payload =
     (case struct_pack MAGIC VERSION command seq sid clock timestamp of
        Inl x \<Rightarrow> []
      | Inr hdr \<Rightarrow> hdr @ payload)"

definition reply_header :: "bytes \<times> addr \<Rightarrow> (int \<times> int) option" where
  "reply_header ma =
     (case parse_message (fst ma) of
        None \<Rightarrow> None
      | Some ((command, seq, sid, lclock, timestamp), payload) \<Rightarrow> Some (command, seq))"

text \<open>A server that has just started, and a wall clock that jumps from 0 to 11 seconds after
  its second reading.\<close>

definition example_server :: server where
  "example_server = \<lparr>sessions = [], running = True\<rparr>"

definition idle_env :: env where
  "idle_env = \<lparr>wall = (\<lambda>n. if n < 2 then 0 else 11), decode_strip = map (\<lambda>b. char_of (unat b))\<rparr>"

section \<open>The wire codec\<close>


lemma length_be_bytes [simp]: "length (be_bytes n v) = n"
  by (induction n arbitrary: v) auto

lemma be_int_snoc: "be_int (bs @ [b]) = be_int bs * 256 + uint b"
  by (simp add: be_int_def)

lemma uint_low_byte: "uint (word_of_int (v mod 256) :: byte) = v mod 256"
  by (simp add: uint_word_of_int)

lemma be_int_be_bytes: "0 \<le> v \<Longrightarrow> v < 256 ^ n \<Longrightarrow> be_int (be_bytes n v) = v"
proof (induction n arbitrary: v)
  case 0
  then show ?case by (simp add: be_int_def)
next
  case (Suc n)
  have "v div 256 < 256 ^ n"
    using Suc.prems by (simp add: div_less_iff_less_mult mult.commute)
  moreover have "0 \<le> v div 256"
    using Suc.prems by simp
  ultimately have "be_int (be_bytes n (v div 256)) = v div 256"
    by (rule Suc.IH [rotated])
  then show ?case
    by (simp add: be_int_snoc uint_low_byte)
qed

lemma be_int_be_bytes_fits:
  "fits 8 v \<Longrightarrow> be_int (be_bytes 1 v) = v"
  "fits 16 v \<Longrightarrow> be_int (be_bytes 2 v) = v"
  "fits 32 v \<Longrightarrow> be_int (be_bytes 4 v) = v"
  "fits 64 v \<Longrightarrow> be_int (be_bytes 8 v) = v"
  by (rule be_int_be_bytes; simp add: fits_def)+

lemma struct_pack_length: "struct_pack h b1 b2 i1 i2 q1 q2 = Inr hdr \<Longrightarrow> length hdr = 28"
  by (auto simp: struct_pack_def split: if_splits)

lemma struct_unpack_pack:
  assumes "struct_pack h b1 b2 i1 i2 q1 q2 = Inr hdr"
  shows "struct_unpack hdr = (h, b1, b2, i1, i2, q1, q2)"
proof -
  from assms have f: "fits 16 h" "fits 8 b1" "fits 8 b2" "fits 32 i1" "fits 32 i2" "fits 64 q1" "fits 64 q2"
    and hdr: "hdr = be_bytes 2 h @ be_bytes 1 b1 @ be_bytes 1 b2 @ be_bytes 4 i1 @ be_bytes 4 i2
                @ be_bytes 8 q1 @ be_bytes 8 q2"
    by (auto simp: struct_pack_def split: if_splits)
  show ?thesis
    unfolding struct_unpack_def hdr using f by (simp add: be_int_be_bytes_fits del: be_bytes.simps One_nat_def)
qed

lemma parse_message_pack:
  assumes "struct_pack MAGIC VERSION command seq sid clock timestamp = Inr hdr"
  shows "parse_message (hdr @ payload) = Some ((command, seq, sid, clock, timestamp), payload)"
  using struct_pack_length [OF assms] struct_unpack_pack [OF assms]
  by (simp add: parse_message_def)

lemma parse_message_c_pack:
  assumes "struct_pack MAGIC VERSION command seq sid clock timestamp = Inr hdr"
  shows "parse_message_c c (hdr @ payload) =
    (if sid = session_id_c c then Some ((command, seq, clock, timestamp), payload) else None)"
  using struct_pack_length [OF assms] struct_unpack_pack [OF assms]
  by (simp add: parse_message_c_def)

text \<open>
  Claim C1. The bytes an endpoint sends are \<^verbatim>\<open>struct.pack('!HBBIIQQ', MAGIC, VERSION, command,
  seq, session_id, clock, timestamp) + data\<close>. Whenever that packing succeeds, for any command,
  sequence number, session id, clock, timestamp and payload: unpacking the first 28 bytes gives
  back the seven header fields, magic and version included, and the rest is the payload; the
  server's \<^verbatim>\<open>parse_message\<close> succeeds with the same command, sequence number, session id,
  clock, timestamp and payload; and so does the \<^verbatim>\<open>parse_message\<close> of every client whose own
  session id is the one in the message.
\<close>

theorem codec_round_trip:
  "struct_pack MAGIC VERSION command seq sid clock timestamp = Inr hdr \<Longrightarrow>
     struct_unpack (take 28 (hdr @ payload)) = (MAGIC, VERSION, command, seq, sid, clock, timestamp)
   \<and> drop 28 (hdr @ payload) = payload
   \<and> parse_message (hdr @ payload) = Some ((command, seq, sid, clock, timestamp), payload)
   \<and> (\<forall>c. session_id_c c = sid \<longrightarrow>
         parse_message_c c (hdr @ payload) = Some ((command, seq, clock, timestamp), payload))"
  by (simp add: struct_pack_length struct_unpack_pack parse_message_pack parse_message_c_pack)

theorem codec_round_trip_witness:
  "struct_pack MAGIC VERSION CMD_DATA 5 7 9 1000 =
     Inr [196, 97, 1, 1, 0, 0, 0, 5, 0, 0, 0, 7, 0, 0, 0, 0, 0, 0, 0, 9, 0, 0, 0, 0, 0, 0, 3, 232]
   \<and> parse_message
        ([196, 97, 1, 1, 0, 0, 0, 5, 0, 0, 0, 7, 0, 0, 0, 0, 0, 0, 0, 9, 0, 0, 0, 0, 0, 0, 3, 232]
         @ [104, 105])
       = Some ((CMD_DATA, 5, 7, 9, 1000), [104, 105])
   \<and> parse_message_c (UDPClient (''localhost'', 9000) 7)
        ([196, 97, 1, 1, 0, 0, 0, 5, 0, 0, 0, 7, 0, 0, 0, 0, 0, 0, 0, 9, 0, 0, 0, 0, 0, 0, 3, 232]
         @ [104, 105])
       = Some ((CMD_DATA, 5, 9, 1000), [104, 105])"
proof -
  have packed: "struct_pack MAGIC VERSION CMD_DATA 5 7 9 1000 =
     Inr [196, 97, 1, 1, 0, 0, 0, 5, 0, 0, 0, 7, 0, 0, 0, 0, 0, 0, 0, 9, 0, 0, 0, 0, 0, 0, 3, 232]"
    by (simp add: struct_pack_def fits_def MAGIC_def VERSION_def CMD_DATA_def eval_nat_numeral)
  have own: "session_id_c (UDPClient (''localhost'', 9000) 7) = 7"
    by (simp add: UDPClient_def)
  from codec_round_trip [OF packed, of "[104, 105]"] own packed show ?thesis
    by blast
qed

text \<open>The same for the bytes \<^verbatim>\<open>create_message\<close> returns, on the client and on the server.\<close>

lemma create_message_c_round_trip:
  assumes "create_message_c e c command data w = (Inr m, c1, w1)"
  shows "parse_message m =
           Some ((command, seq_num c, session_id_c c, logical_clock_c c + 1,
                  py_int (wall e (ticks w) * 1000)), data)"
    and "parse_message_c c1 m =
           Some ((command, seq_num c, logical_clock_c c + 1, py_int (wall e (ticks w) * 1000)), data)"
  using assms
  by (auto simp: create_message_c_def update_clock_c_def time_time_def parse_message_pack
      parse_message_c_pack split: sum.splits)

lemma create_message_round_trip:
  assumes "create_message e s command seq data w = (Inr m, s1, w1)"
  shows "parse_message m =
           Some ((command, seq, session_id s, logical_clock s + 1,
                  py_int (wall e (ticks w) * 1000)), data)"
    and "session_id_c c = session_id s \<Longrightarrow> parse_message_c c m =
           Some ((command, seq, logical_clock s + 1, py_int (wall e (ticks w) * 1000)), data)"
  using assms
  by (auto simp: create_message_def update_clock_def time_time_def parse_message_pack
      parse_message_c_pack split: sum.splits)

section \<open>The logical clock\<close>

lemma update_clock_value:
  "update_clock s rc =
     (max (logical_clock s) (case rc of None \<Rightarrow> logical_clock s | Some r \<Rightarrow> r) + 1,
      s\<lparr>logical_clock := max (logical_clock s) (case rc of None \<Rightarrow> logical_clock s | Some r \<Rightarrow> r) + 1\<rparr>)"
  by (cases rc) (simp_all add: update_clock_def)

lemma update_clock_c_value:
  "update_clock_c c rc =
     (max (logical_clock_c c) (case rc of None \<Rightarrow> logical_clock_c c | Some r \<Rightarrow> r) + 1,
      c\<lparr>logical_clock_c := max (logical_clock_c c) (case rc of None \<Rightarrow> logical_clock_c c | Some r \<Rightarrow> r) + 1\<rparr>)"
  by (cases rc) (simp_all add: update_clock_c_def)

lemma update_clock_calls_steps:
  "successively (\<lambda>a b. a + 1 \<le> b) (logical_clock s # update_clock_calls s rcs)"
proof (induction rcs arbitrary: s)
  case Nil
  then show ?case by simp
next
  case (Cons rc rcs)
  let ?s1 = "snd (update_clock s rc)"
  have "successively (\<lambda>a b. a + 1 \<le> b) (logical_clock ?s1 # update_clock_calls ?s1 rcs)"
    by (rule Cons.IH)
  then show ?case
    by (simp add: update_clock_value)
qed

lemma update_clock_calls_c_steps:
  "successively (\<lambda>a b. a + 1 \<le> b) (logical_clock_c c # update_clock_calls_c c rcs)"
proof (induction rcs arbitrary: c)
  case Nil
  then show ?case by simp
next
  case (Cons rc rcs)
  let ?c1 = "snd (update_clock_c c rc)"
  have "successively (\<lambda>a b. a + 1 \<le> b) (logical_clock_c ?c1 # update_clock_calls_c ?c1 rcs)"
    by (rule Cons.IH)
  then show ?case
    by (simp add: update_clock_c_value)
qed

text \<open>
  Claim C2. A call of \<^verbatim>\<open>update_clock\<close>, on a server session and on the client alike, sets the
  clock to the maximum of the current clock and the received clock (when there is one) plus 1,
  and returns the new clock; the new clock is at least the old one plus 1; with a received clock
  \<open>r\<close> greater than the current clock the call returns \<open>r + 1\<close>. Over any sequence of calls,
  each value in the sequence current clock, first result, second result, ... is at least its
  predecessor plus 1, so the clock never decreases.
\<close>

theorem lamport_clock:
  "(case update_clock s rc of (k, s1) \<Rightarrow>
      logical_clock s1 = max (logical_clock s) (case rc of None \<Rightarrow> logical_clock s | Some r \<Rightarrow> r) + 1
      \<and> k = logical_clock s1
      \<and> logical_clock s + 1 \<le> logical_clock s1
      \<and> (\<forall>r. rc = Some r \<and> logical_clock s < r \<longrightarrow> k = r + 1))
   \<and> successively (\<lambda>a b. a + 1 \<le> b) (logical_clock s # update_clock_calls s rcs)
   \<and> (case update_clock_c c rc of (k, c1) \<Rightarrow>
      logical_clock_c c1 = max (logical_clock_c c) (case rc of None \<Rightarrow> logical_clock_c c | Some r \<Rightarrow> r) + 1
      \<and> k = logical_clock_c c1
      \<and> logical_clock_c c + 1 \<le> logical_clock_c c1
      \<and> (\<forall>r. rc = Some r \<and> logical_clock_c c < r \<longrightarrow> k = r + 1))
   \<and> successively (\<lambda>a b. a + 1 \<le> b) (logical_clock_c c # update_clock_calls_c c rcs)"
  by (simp add: update_clock_value update_clock_c_value update_clock_calls_steps
      update_clock_calls_c_steps split: option.split)

theorem lamport_clock_witness:
  "logical_clock example_session < 10
   \<and> fst (update_clock example_session (Some 10)) = 10 + 1
   \<and> logical_clock_c example_client < 10
   \<and> fst (update_clock_c example_client (Some 10)) = 10 + 1"
  using lamport_clock [of example_session "Some 10" "[]" example_client]
  by (simp add: example_session_def example_client_def UDPClient_def split: prod.splits)

section \<open>Server sessions\<close>

lemma sent_append: "sent (xs @ ys) = sent xs @ sent ys"
  by (induction xs rule: sent.induct) simp_all

lemma lost_reports_append: "lost_reports (xs @ ys) = lost_reports xs @ lost_reports ys"
  by (induction xs rule: lost_reports.induct) simp_all

lemma sent_lost: "sent (map (\<lambda>i. Print (Lost_packet sid i)) ns) = []"
  by (induction ns) simp_all

lemma lost_reports_lost: "lost_reports (map (\<lambda>i. Print (Lost_packet sid i)) ns) = ns"
  by (induction ns) simp_all

lemma fits_MAGIC: "fits 16 MAGIC" and fits_VERSION: "fits 8 VERSION"
  by (simp_all add: fits_def MAGIC_def VERSION_def)

lemma struct_pack_datagram:
  "fits 8 command \<Longrightarrow> fits 32 seq \<Longrightarrow> fits 32 sid \<Longrightarrow> fits 64 clock \<Longrightarrow> fits 64 timestamp \<Longrightarrow>
   struct_pack MAGIC VERSION command seq sid clock timestamp =
     Inr (datagram command seq sid clock timestamp [])"
  by (simp add: datagram_def struct_pack_def fits_MAGIC fits_VERSION)

lemma struct_pack_overflow:
  "\<not> fits 64 clock \<Longrightarrow> struct_pack h b1 b2 i1 i2 clock q2 = Inl StructError"
  by (simp add: struct_pack_def)

lemma parse_message_datagram:
  assumes "fits 8 command" "fits 32 seq" "fits 32 sid" "fits 64 clock" "fits 64 timestamp"
  shows "parse_message (datagram command seq sid clock timestamp payload) =
     Some ((command, seq, sid, clock, timestamp), payload)"
proof -
  obtain hdr where packed: "struct_pack MAGIC VERSION command seq sid clock timestamp = Inr hdr"
    using assms by (simp add: struct_pack_def fits_MAGIC fits_VERSION)
  then have "datagram command seq sid clock timestamp payload = hdr @ payload"
    by (simp add: datagram_def)
  with parse_message_pack [OF packed] show ?thesis
    by simp
qed

lemma reply_header_datagram:
  "fits 8 command \<Longrightarrow> fits 32 seq \<Longrightarrow> fits 32 sid \<Longrightarrow> fits 64 clock \<Longrightarrow> fits 64 timestamp \<Longrightarrow>
   reply_header (datagram command seq sid clock timestamp payload, a) = Some (command, seq)"
  by (simp add: reply_header_def parse_message_datagram)

lemma reply_header_pack:
  "struct_pack MAGIC VERSION command seq sid clock timestamp = Inr hdr \<Longrightarrow>
   reply_header (hdr @ payload, a) = Some (command, seq)"
  by (simp add: reply_header_def parse_message_pack)

lemmas server_defs =
  run_iteration_def sweep_def handle_packet_def handle_hello_def handle_goodbye_def
  check_timeout_def send_message_def create_message_def update_clock_value Session_def
  time_time_def print_def sendto_def py_int_def Let_def

lemmas example_defs =
  example_env_def example_io_def example_server_def example_session_def example_addr_def
  example_client_def CMD_HELLO_def CMD_DATA_def CMD_ALIVE_def CMD_GOODBYE_def

text \<open>The loop of \<^verbatim>\<open>handle_data\<close> prints one report for each number from
  \<^verbatim>\<open>expected_seq\<close> up to, not including, \<^verbatim>\<open>seq_num\<close>, and stops with
  \<^verbatim>\<open>expected_seq == seq_num\<close>.\<close>

lemma lost_loop_result:
  "expected_seq s \<le> n \<Longrightarrow>
   lost_loop s n w =
     (s\<lparr>expected_seq := n\<rparr>,
      w\<lparr>outputs := outputs w @ map (\<lambda>i. Print (Lost_packet (session_id s) i)) [expected_seq s..n - 1]\<rparr>)"
proof (induction s n w rule: lost_loop.induct)
  case (1 s n w)
  show ?case
  proof (cases "expected_seq s < n")
    case True
    then have "[expected_seq s..n - 1] = expected_seq s # [expected_seq s + 1..n - 1]"
      by (simp add: upto_rec1)
    with True "1.IH" show ?thesis
      by (subst lost_loop.simps) (simp add: print_def)
  next
    case False
    with "1.prems" have "expected_seq s = n" by simp
    then show ?thesis
      by (subst lost_loop.simps) simp
  qed
qed

text \<open>What \<^verbatim>\<open>handle_data\<close> does with a packet that is not a duplicate: when the reply can be
  packed, and when \<^verbatim>\<open>struct.pack\<close> raises.\<close>

lemma handle_data_accept:
  assumes "expected_seq s \<le> n"
    and "struct_pack MAGIC VERSION CMD_ALIVE n (session_id s) (max (logical_clock s) lclock + 2)
           (py_int (wall e (ticks w) * 1000)) = Inr hdr"
  shows "handle_data e s (cmd, n, lclock, ts) data w =
    (None,
     s\<lparr>expected_seq := n + 1, last_activity := wall e (Suc (ticks w)),
       logical_clock := max (logical_clock s) lclock + 2\<rparr>,
     w\<lparr>ticks := ticks w + 3,
       outputs := outputs w @ map (\<lambda>i. Print (Lost_packet (session_id s) i)) [expected_seq s..n - 1]
         @ (if decode_strip e data \<noteq> [] then [Print (Data_text (session_id s) n (decode_strip e data))] else [])
         @ [Sendto hdr (addr s)]\<rparr>)"
proof -
  from assms(2) have "struct_pack MAGIC VERSION CMD_ALIVE n (session_id s)
      (2 + max (logical_clock s) lclock) (py_int (wall e (ticks w) * 1000)) = Inr hdr"
    by (simp add: add.commute)
  with assms(1) show ?thesis
    by (simp add: handle_data_def lost_loop_result update_clock_value send_message_def
        create_message_def time_time_def print_def sendto_def Let_def)
qed

lemma handle_data_raise:
  assumes "expected_seq s \<le> n"
    and "struct_pack MAGIC VERSION CMD_ALIVE n (session_id s) (max (logical_clock s) lclock + 2)
           (py_int (wall e (ticks w) * 1000)) = Inl x"
  shows "handle_data e s (cmd, n, lclock, ts) data w =
    (Some x,
     s\<lparr>expected_seq := n, logical_clock := max (logical_clock s) lclock + 2\<rparr>,
     w\<lparr>ticks := ticks w + 1,
       outputs := outputs w @ map (\<lambda>i. Print (Lost_packet (session_id s) i)) [expected_seq s..n - 1]
         @ (if decode_strip e data \<noteq> [] then [Print (Data_text (session_id s) n (decode_strip e data))] else [])\<rparr>)"
proof -
  from assms(2) have "struct_pack MAGIC VERSION CMD_ALIVE n (session_id s)
      (2 + max (logical_clock s) lclock) (py_int (wall e (ticks w) * 1000)) = Inl x"
    by (simp add: add.commute)
  with assms(1) show ?thesis
    by (simp add: handle_data_def lost_loop_result update_clock_value send_message_def
        create_message_def time_time_def print_def sendto_def Let_def)
qed

text \<open>
  A gap: with \<^verbatim>\<open>seq_num == expected_seq + k\<close> and \<open>k \<ge> 1\<close>, and a reply that can be packed,
  \<^verbatim>\<open>handle_data\<close> prints the \<open>k\<close> lost-packet reports for \<^verbatim>\<open>expected_seq\<close>, ...,
  \<^verbatim>\<open>seq_num - 1\<close> and leaves \<^verbatim>\<open>expected_seq == seq_num + 1\<close>.
\<close>

lemma gap_handling_when_reply_packs:
  assumes "1 \<le> k" and "n = expected_seq s + k"
    and "struct_pack MAGIC VERSION CMD_ALIVE n (session_id s) (max (logical_clock s) lclock + 2)
           (py_int (wall e (ticks w) * 1000)) = Inr hdr"
  shows "case handle_data e s (cmd, n, lclock, ts) data w of (r, s1, w1) \<Rightarrow>
           r = None
         \<and> lost_reports (outputs w1) = lost_reports (outputs w) @ [expected_seq s..n - 1]
         \<and> int (length [expected_seq s..n - 1]) = k
         \<and> expected_seq s1 = n + 1"
proof -
  from assms(1,2) have le: "expected_seq s \<le> n" by simp
  from assms(1,2) have len: "int (length [expected_seq s..n - 1]) = k" by simp
  show ?thesis
    using len
    by (simp add: handle_data_accept [OF le assms(3)] lost_reports_append lost_reports_lost)
qed

text \<open>
  The reply carries the session's clock after two updates. When that value does not fit the
  64-bit field, \<^verbatim>\<open>struct.pack\<close> raises inside \<^verbatim>\<open>send_message\<close>: the lost-packet reports
  have been printed and \<^verbatim>\<open>expected_seq\<close> has reached \<^verbatim>\<open>seq_num\<close>, but no reply is sent and
  the statement \<^verbatim>\<open>self.expected_seq += 1\<close> is not reached.
\<close>

lemma handle_data_overflow:
  assumes "expected_seq s \<le> n" and "\<not> fits 64 (max (logical_clock s) lclock + 2)"
  shows "handle_data e s (cmd, n, lclock, ts) data w =
    (Some StructError,
     s\<lparr>expected_seq := n, logical_clock := max (logical_clock s) lclock + 2\<rparr>,
     w\<lparr>ticks := ticks w + 1,
       outputs := outputs w @ map (\<lambda>i. Print (Lost_packet (session_id s) i)) [expected_seq s..n - 1]
         @ (if decode_strip e data \<noteq> [] then [Print (Data_text (session_id s) n (decode_strip e data))] else [])\<rparr>)"
  by (rule handle_data_raise [OF assms(1)]) (rule struct_pack_overflow [OF assms(2)])

text \<open>
  Claim C3 says that a DATA message with \<^verbatim>\<open>seq == expected_seq + k\<close>, \<open>k \<ge> 1\<close>, produces
  exactly \<open>k\<close> lost-packet reports and leaves \<^verbatim>\<open>expected_seq == seq + 1\<close>. The code departs
  from it on the following run of a fresh server. A HELLO for session 7 is accepted
  (\<^verbatim>\<open>expected_seq\<close> becomes 1); then a DATA message with sequence number 3 (\<open>k = 2\<close>) and clock
  field \<open>2\<^sup>6\<^sup>4 - 1\<close> arrives. The two reports for 1 and 2 are printed, the clock becomes
  \<open>2\<^sup>6\<^sup>4 + 1\<close>, packing the ALIVE reply raises, \<^verbatim>\<open>expected_seq\<close> stays at 3 instead of 4,
  no ALIVE is sent, and the exception makes \<^verbatim>\<open>run\<close> clear \<^verbatim>\<open>self.running\<close>.
\<close>

theorem gap_data_clock_overflow:
  "run_iterations example_env
     [Some (datagram CMD_HELLO 0 7 0 0 [], example_addr),
      Some (datagram CMD_DATA 3 7 (2 ^ 64 - 1) 0 [], example_addr)]
     example_server example_io =
   (None,
    \<lparr>sessions = [(7, \<lparr>session_id = 7, addr = example_addr, expected_seq = 3, last_activity = 100,
                      active = True, logical_clock = 2 ^ 64 + 1\<rparr>)], running = False\<rparr>,
    \<lparr>ticks = 4,
     outputs = [Print (Session_created 7),
                Sendto (datagram CMD_HELLO 0 7 2 100000 []) example_addr,
                Print (Lost_packet 7 1),
                Print (Lost_packet 7 2)]\<rparr>)"
  by (simp add: server_defs example_defs struct_pack_datagram parse_message_datagram
      fits_def handle_data_overflow upto_rec1)

text \<open>
  Claim C4. A DATA message whose sequence number is below \<^verbatim>\<open>expected_seq\<close> is reported as a
  duplicate and nothing else happens: \<^verbatim>\<open>handle_data\<close> returns the session as it was (so
  \<^verbatim>\<open>expected_seq\<close>, \<^verbatim>\<open>logical_clock\<close>, \<^verbatim>\<open>last_activity\<close> and \<^verbatim>\<open>active\<close> keep their
  values), no datagram is sent, and \<^verbatim>\<open>handle_packet\<close> on such a message for a session of the
  table leaves the whole server unchanged.
\<close>

theorem duplicate_data_ignored:
  assumes "n < expected_seq s"
  shows "handle_data e s (cmd, n, lclock, ts) data w =
           (None, s, print (Duplicate_packet (session_id s) n) w)
       \<and> sent (outputs (print (Duplicate_packet (session_id s) n) w)) = sent (outputs w)
       \<and> (map_of (sessions srv) sid = Some s
            \<and> parse_message d = Some ((CMD_DATA, n, sid, lclock, ts), payload) \<longrightarrow>
          handle_packet e srv d a w = (None, srv, print (Duplicate_packet (session_id s) n) w))"
  using assms
  by (simp add: handle_data_def handle_packet_def print_def sent_append AList.update_triv
      CMD_DATA_def CMD_HELLO_def)

theorem duplicate_data_ignored_witness:
  "(0::int) < expected_seq example_session
   \<and> handle_data example_env example_session (CMD_DATA, 0, 9, 0) [104, 105] example_io =
       (None, example_session, print (Duplicate_packet 7 0) example_io)
   \<and> handle_packet example_env \<lparr>sessions = [(7, example_session)], running = True\<rparr>
        (datagram CMD_DATA 0 7 9 0 [104, 105]) example_addr example_io =
       (None, \<lparr>sessions = [(7, example_session)], running = True\<rparr>,
        print (Duplicate_packet 7 0) example_io)"
proof -
  have dup: "0 < expected_seq example_session"
    by (simp add: example_session_def)
  have parsed: "parse_message (datagram CMD_DATA 0 7 9 0 [104, 105]) =
      Some ((CMD_DATA, 0, 7, 9, 0), [104, 105])"
    by (simp add: parse_message_datagram fits_def CMD_DATA_def)
  have sid: "session_id example_session = 7"
    by (simp add: example_session_def)
  from duplicate_data_ignored [OF dup, of example_env CMD_DATA 9 0 "[104, 105]" example_io
      "\<lparr>sessions = [(7, example_session)], running = True\<rparr>" 7
      "datagram CMD_DATA 0 7 9 0 [104, 105]" "[104, 105]" example_addr]
    dup parsed sid
  show ?thesis by simp
qed

text \<open>
  Claim C8. A message that parses, whose session id is not in the session table and whose
  command is not HELLO, is dropped: \<^verbatim>\<open>handle_packet\<close> returns the server as it was (no session
  is created) and the environment as it was (nothing is sent, nothing is printed).
\<close>

theorem unknown_session_dropped:
  assumes "parse_message d = Some ((command, n, sid, lclock, ts), payload)"
    and "sid \<notin> fst ` set (sessions srv)"
    and "command \<noteq> CMD_HELLO"
  shows "handle_packet e srv d a w = (None, srv, w)"
  using assms by (simp add: handle_packet_def map_of_eq_None_iff)

theorem unknown_session_dropped_witness:
  "parse_message (datagram CMD_DATA 1 7 9 0 [104, 105]) = Some ((CMD_DATA, 1, 7, 9, 0), [104, 105])
   \<and> 7 \<notin> fst ` set (sessions example_server)
   \<and> CMD_DATA \<noteq> CMD_HELLO
   \<and> handle_packet example_env example_server (datagram CMD_DATA 1 7 9 0 [104, 105])
        example_addr example_io = (None, example_server, example_io)"
proof -
  have parsed: "parse_message (datagram CMD_DATA 1 7 9 0 [104, 105]) =
      Some ((CMD_DATA, 1, 7, 9, 0), [104, 105])"
    by (simp add: parse_message_datagram fits_def CMD_DATA_def)
  have absent: "7 \<notin> fst ` set (sessions example_server)"
    by (simp add: example_server_def)
  have other: "CMD_DATA \<noteq> CMD_HELLO"
    by (simp add: CMD_DATA_def CMD_HELLO_def)
  from unknown_session_dropped [OF parsed absent other, of example_env example_addr example_io]
    parsed absent other
  show ?thesis by simp
qed


text \<open>
  Claim C5 says that the ALIVE reply to an accepted DATA message with sequence number
  \<open>seq\<close> carries \<open>seq + 1\<close>. It does not: \<^verbatim>\<open>handle_data\<close> sends the reply with
  \<^verbatim>\<open>self.expected_seq\<close> before it increments it. For DATA with sequence number 1 at
  \<^verbatim>\<open>expected_seq == 1\<close> the one datagram sent is an ALIVE with sequence number 1, not 2.
\<close>

theorem alive_reply_seq_counterexample:
  "map reply_header (sent (outputs (snd (snd
      (handle_data example_env example_session (CMD_DATA, 1, 0, 0) [] example_io))))) =
     [Some (CMD_ALIVE, 1)]
   \<and> map reply_header (sent (outputs (snd (snd
      (handle_data example_env example_session (CMD_DATA, 1, 0, 0) [] example_io))))) \<noteq>
     [Some (CMD_ALIVE, 1 + 1)]"
  by (simp add: example_defs handle_data_accept struct_pack_datagram reply_header_datagram fits_def
      py_int_def)

text \<open>
  Claim C5, amended. Whenever \<^verbatim>\<open>handle_data\<close> accepts a DATA message with sequence number
  \<open>n \<ge> expected_seq\<close> and returns, it has sent exactly one datagram, to the session's address:
  an ALIVE whose sequence number is \<open>n\<close> itself (the value of \<^verbatim>\<open>expected_seq\<close> after the
  gap has been filled), and \<^verbatim>\<open>expected_seq\<close> is \<open>n + 1\<close> afterwards. So DATA(seq=1) at
  \<^verbatim>\<open>expected_seq == 1\<close> is answered by ALIVE(seq=1), and DATA(seq=5) at
  \<^verbatim>\<open>expected_seq == 2\<close> by ALIVE(seq=5).
\<close>

theorem alive_reply_carries_seq:
  assumes "expected_seq s \<le> n"
    and "handle_data e s (cmd, n, lclock, ts) data w = (None, s1, w1)"
  shows "\<exists>m. sent (outputs w1) = sent (outputs w) @ [(m, addr s)]
           \<and> reply_header (m, addr s) = Some (CMD_ALIVE, n)
           \<and> expected_seq s1 = n + 1"
proof (cases "struct_pack MAGIC VERSION CMD_ALIVE n (session_id s)
    (max (logical_clock s) lclock + 2) (py_int (wall e (ticks w) * 1000))")
  case (Inl x)
  from handle_data_raise [OF assms(1) Inl, of cmd ts data] assms(2) show ?thesis
    by simp
next
  case (Inr hdr)
  from handle_data_accept [OF assms(1) Inr, of cmd ts data] assms(2)
  have s1: "expected_seq s1 = n + 1"
    and w1: "sent (outputs w1) = sent (outputs w) @ [(hdr, addr s)]"
    by (auto simp: sent_append sent_lost)
  from reply_header_pack [OF Inr, of "[]" "addr s"]
  have "reply_header (hdr, addr s) = Some (CMD_ALIVE, n)"
    by simp
  with s1 w1 show ?thesis
    by blast
qed

theorem alive_reply_carries_seq_witness:
  "expected_seq (example_session\<lparr>expected_seq := 2\<rparr>) \<le> 5
   \<and> fst (handle_data example_env (example_session\<lparr>expected_seq := 2\<rparr>) (CMD_DATA, 5, 0, 0) []
        example_io) = None
   \<and> (\<exists>m. sent (outputs (snd (snd (handle_data example_env (example_session\<lparr>expected_seq := 2\<rparr>)
                 (CMD_DATA, 5, 0, 0) [] example_io)))) = [(m, example_addr)]
          \<and> reply_header (m, example_addr) = Some (CMD_ALIVE, 5))
   \<and> expected_seq (fst (snd (handle_data example_env (example_session\<lparr>expected_seq := 2\<rparr>)
        (CMD_DATA, 5, 0, 0) [] example_io))) = 5 + 1"
proof -
  let ?s = "example_session\<lparr>expected_seq := 2\<rparr>"
  let ?r = "handle_data example_env ?s (CMD_DATA, 5, 0, 0) [] example_io"
  have le: "expected_seq ?s \<le> 5"
    by simp
  have none: "fst ?r = None"
    by (simp add: example_defs handle_data_accept struct_pack_datagram fits_def py_int_def)
  then have run: "?r = (None, fst (snd ?r), snd (snd ?r))"
    by (metis prod.collapse)
  have start: "sent (outputs example_io) = []" "addr ?s = example_addr"
    by (simp_all add: example_defs)
  from alive_reply_carries_seq [OF le run] le none start show ?thesis
    by auto
qed

text \<open>
  Claim C6 says that a session ended by a GOODBYE, by a protocol violation or by an idle timeout
  is gone from the session table, and that no later message with its id is processed against
  the old record. \<^verbatim>\<open>handle_packet\<close> deletes the record after \<^verbatim>\<open>handle_goodbye\<close>, and
  \<^verbatim>\<open>run\<close> deletes it after a timeout, but nothing deletes it after the protocol violation in
  \<^verbatim>\<open>handle_hello\<close>, which only clears \<^verbatim>\<open>active\<close>. On a fresh server: a HELLO for session 7
  is accepted; a second HELLO for session 7 is a protocol violation and is answered by GOODBYE;
  a DATA message with sequence number 1 for session 7 is then handled against the old record,
  which is still in the table with \<^verbatim>\<open>active == False\<close>: it is answered by ALIVE and
  \<^verbatim>\<open>expected_seq\<close> becomes 2.
\<close>

theorem hello_violation_keeps_session:
  "run_iterations example_env
     [Some (datagram CMD_HELLO 0 7 0 0 [], example_addr),
      Some (datagram CMD_HELLO 0 7 2 0 [], example_addr),
      Some (datagram CMD_DATA 1 7 3 0 [], example_addr)]
     example_server example_io =
   (None,
    \<lparr>sessions = [(7, \<lparr>session_id = 7, addr = example_addr, expected_seq = 2, last_activity = 100,
                      active = False, logical_clock = 5\<rparr>)], running = True\<rparr>,
    \<lparr>ticks = 8,
     outputs = [Print (Session_created 7),
                Sendto (datagram CMD_HELLO 0 7 2 100000 []) example_addr,
                Print (Protocol_error 7),
                Sendto (datagram CMD_GOODBYE 1 7 3 100000 []) example_addr,
                Sendto (datagram CMD_ALIVE 1 7 5 100000 []) example_addr]\<rparr>)"
  by (simp add: server_defs example_defs struct_pack_datagram parse_message_datagram
      handle_data_accept fits_def)

text \<open>
  Claim C9 says that the idle sweep sends an active session that has been idle for more than 10
  seconds exactly one GOODBYE, marks it inactive and removes it. The code departs from it
  when the GOODBYE cannot be packed. On a fresh server a HELLO for session 7 with clock field
  \<open>2\<^sup>6\<^sup>4 - 3\<close> is accepted at time 0 and answered with clock \<open>2\<^sup>6\<^sup>4 - 1\<close>. At time 11 the
  sweep finds the session idle, \<^verbatim>\<open>send_message\<close> raises in \<^verbatim>\<open>struct.pack\<close>, and the
  exception leaves \<^verbatim>\<open>run\<close>: no GOODBYE is sent, the session is still active and still in the
  table.
\<close>

theorem idle_sweep_clock_overflow:
  "run_iterations idle_env
     [Some (datagram CMD_HELLO 0 7 (2 ^ 64 - 3) 0 [], example_addr), None]
     example_server example_io =
   (Some StructError,
    \<lparr>sessions = [(7, \<lparr>session_id = 7, addr = example_addr, expected_seq = 1, last_activity = 0,
                      active = True, logical_clock = 2 ^ 64\<rparr>)], running = True\<rparr>,
    \<lparr>ticks = 4,
     outputs = [Print (Session_created 7),
                Sendto (datagram CMD_HELLO 0 7 (2 ^ 64 - 1) 0 []) example_addr,
                Print (Session_timeout 7)]\<rparr>)"
  by (simp add: server_defs example_defs idle_env_def struct_pack_datagram parse_message_datagram
      struct_pack_overflow fits_def)

subsection \<open>The paths that end a session, when the GOODBYE can be packed\<close>

text \<open>\<^verbatim>\<open>send_message\<close> in one step: the clock is advanced and read, the time is read, and the
  datagram is sent unless \<^verbatim>\<open>struct.pack\<close> raises.\<close>

lemma send_message_value:
  "send_message e s command n data w =
     (case struct_pack MAGIC VERSION command n (session_id s) (logical_clock s + 1)
             (py_int (wall e (ticks w) * 1000)) of
        Inl x \<Rightarrow> (Some x, s\<lparr>logical_clock := logical_clock s + 1\<rparr>, w\<lparr>ticks := Suc (ticks w)\<rparr>)
      | Inr hdr \<Rightarrow>
          (None, s\<lparr>logical_clock := logical_clock s + 1\<rparr>,
           w\<lparr>ticks := Suc (ticks w), outputs := outputs w @ [Sendto (hdr @ data) (addr s)]\<rparr>))"
  by (simp add: send_message_def create_message_def update_clock_value time_time_def sendto_def
      split: sum.splits)

text \<open>
  \<^verbatim>\<open>check_timeout\<close> on an active session that has been idle for more than 10 seconds: when
  the GOODBYE can be packed it is the one datagram sent, it carries \<^verbatim>\<open>expected_seq\<close>, the
  session is marked inactive and the result is \<^verbatim>\<open>True\<close>.
\<close>

lemma check_timeout_idle:
  assumes "active s" and "wall e (ticks w) - last_activity s > 10"
    and "struct_pack MAGIC VERSION CMD_GOODBYE (expected_seq s) (session_id s) (logical_clock s + 1)
           (py_int (wall e (Suc (ticks w)) * 1000)) = Inr hdr"
  shows "check_timeout e s w =
    (Inr True, s\<lparr>active := False, logical_clock := logical_clock s + 1\<rparr>,
     w\<lparr>ticks := ticks w + 2,
       outputs := outputs w @ [Print (Session_timeout (session_id s)), Sendto hdr (addr s)]\<rparr>)"
  using assms
  by (simp add: check_timeout_def send_message_value time_time_def print_def Let_def)

lemma check_timeout_ticks:
  "check_timeout e s w = (r, s1, w1) \<Longrightarrow> ticks w \<le> ticks w1"
  by (auto simp: check_timeout_def send_message_value time_time_def print_def Let_def
      split: if_splits sum.splits)

lemma reply_header_pack_empty:
  "struct_pack MAGIC VERSION command seq sid clock timestamp = Inr hdr \<Longrightarrow>
   reply_header (hdr, a) = Some (command, seq)"
  using reply_header_pack [of command seq sid clock timestamp hdr "[]" a] by simp

lemma check_timeout_fires:
  assumes "active s" and "wall e (ticks w) - last_activity s > 10"
    and "check_timeout e s w = (Inr b, s1, w1)"
  shows "b \<and> \<not> active s1
       \<and> (\<exists>m. sent (outputs w1) = sent (outputs w) @ [(m, addr s)]
              \<and> reply_header (m, addr s) = Some (CMD_GOODBYE, expected_seq s))"
  using assms
  by (auto simp: check_timeout_def send_message_value time_time_def print_def Let_def sent_append
      split: sum.splits dest: reply_header_pack_empty)

text \<open>
  The sweep: a session id that is not in the table and not among the keys still to be visited
  is not in the table afterwards; and when the sweep ends without an exception, an active
  session that is idle at every reading of the clock during the sweep has been removed.
\<close>

lemma sweep_keys_keeps_absent:
  "map_of (sessions srv) sid = None \<Longrightarrow> sid \<notin> set ks \<Longrightarrow>
   sweep_keys e ks srv w = (r, srv1, w1) \<Longrightarrow> map_of (sessions srv1) sid = None"
proof (induction ks arbitrary: srv w)
  case Nil
  then show ?case by simp
next
  case (Cons k ks)
  from Cons.prems(2) have ne: "k \<noteq> sid" and notin: "sid \<notin> set ks" by auto
  show ?case
  proof (cases "map_of (sessions srv) k")
    case None
    with Cons.prems show ?thesis by simp
  next
    case (Some s)
    obtain res s' w' where ct: "check_timeout e s w = (res, s', w')"
      by (cases "check_timeout e s w") auto
    show ?thesis
    proof (cases res)
      case (Inl x)
      with Cons.prems(1,3) Some ct ne show ?thesis
        by (auto simp: update_conv')
    next
      case (Inr b)
      show ?thesis
      proof (cases b)
        case True
        have "map_of (sessions (srv\<lparr>sessions := AList.delete k (sessions srv)\<rparr>)) sid = None"
          using Cons.prems(1) ne by (simp add: delete_conv')
        from Cons.IH [OF this notin] Cons.prems(3) Some ct Inr True show ?thesis
          by simp
      next
        case False
        have "map_of (sessions (srv\<lparr>sessions := AList.update k s' (sessions srv)\<rparr>)) sid = None"
          using Cons.prems(1) ne by (simp add: update_conv')
        from Cons.IH [OF this notin] Cons.prems(3) Some ct Inr False show ?thesis
          by simp
      qed
    qed
  qed
qed

lemma sweep_keys_removes_idle:
  assumes "sweep_keys e ks srv w = (None, srv1, w1)"
    and "sid \<in> set ks" and "distinct ks"
    and "map_of (sessions srv) sid = Some s" and "active s"
    and "\<And>n. ticks w \<le> n \<Longrightarrow> wall e n - last_activity s > 10"
  shows "map_of (sessions srv1) sid = None"
  using assms
proof (induction ks arbitrary: srv w)
  case Nil
  then show ?case by simp
next
  case (Cons k ks)
  show ?case
  proof (cases "k = sid")
    case True
    with Cons.prems(3) have notin: "sid \<notin> set ks" by simp
    obtain res s' w' where ct: "check_timeout e s w = (res, s', w')"
      by (cases "check_timeout e s w") auto
    have late: "wall e (ticks w) - last_activity s > 10"
      using Cons.prems(6) by simp
    show ?thesis
    proof (cases res)
      case (Inl x)
      with Cons.prems(1,4) True ct show ?thesis by simp
    next
      case (Inr b)
      with check_timeout_fires [OF Cons.prems(5) late] ct have b by simp
      have gone: "map_of (sessions (srv\<lparr>sessions := AList.delete sid (sessions srv)\<rparr>)) sid = None"
        by (simp add: delete_conv')
      from Cons.prems(1,4) True ct Inr \<open>b\<close>
      have "sweep_keys e ks (srv\<lparr>sessions := AList.delete sid (sessions srv)\<rparr>) w' = (None, srv1, w1)"
        by simp
      from sweep_keys_keeps_absent [OF gone notin this] show ?thesis .
    qed
  next
    case False
    with Cons.prems(2,3) have mem: "sid \<in> set ks" and dist: "distinct ks" by auto
    show ?thesis
    proof (cases "map_of (sessions srv) k")
      case None
      with Cons.prems(1) show ?thesis by simp
    next
      case (Some sk)
      obtain res s' w' where ct: "check_timeout e sk w = (res, s', w')"
        by (cases "check_timeout e sk w") auto
      from check_timeout_ticks [OF ct] Cons.prems(6)
      have late: "\<And>n. ticks w' \<le> n \<Longrightarrow> wall e n - last_activity s > 10"
        by simp
      show ?thesis
      proof (cases res)
        case (Inl x)
        with Cons.prems(1) Some ct show ?thesis by simp
      next
        case (Inr b)
        show ?thesis
        proof (cases b)
          case True
          have there: "map_of (sessions (srv\<lparr>sessions := AList.delete k (sessions srv)\<rparr>)) sid = Some s"
            using Cons.prems(4) False by (simp add: delete_conv')
          from Cons.prems(1) Some ct Inr True
          have "sweep_keys e ks (srv\<lparr>sessions := AList.delete k (sessions srv)\<rparr>) w' = (None, srv1, w1)"
            by simp
          from Cons.IH [OF this mem dist there Cons.prems(5) late] show ?thesis .
        next
          case notb: False
          have there: "map_of (sessions (srv\<lparr>sessions := AList.update k s' (sessions srv)\<rparr>)) sid = Some s"
            using Cons.prems(4) False by (simp add: update_conv')
          from Cons.prems(1) Some ct Inr notb
          have "sweep_keys e ks (srv\<lparr>sessions := AList.update k s' (sessions srv)\<rparr>) w' = (None, srv1, w1)"
            by simp
          from Cons.IH [OF this mem dist there Cons.prems(5) late] show ?thesis .
        qed
      qed
    qed
  qed
qed

lemma sweep_removes_idle:
  assumes "sweep e srv w = (None, srv1, w1)"
    and "distinct (map fst (sessions srv))"
    and "map_of (sessions srv) sid = Some s" and "active s"
    and "\<And>n. ticks w \<le> n \<Longrightarrow> wall e n - last_activity s > 10"
  shows "map_of (sessions srv1) sid = None"
proof -
  from assms(3) have "sid \<in> set (map fst (sessions srv))"
    by (metis map_of_eq_None_iff option.distinct(1) set_map)
  from sweep_keys_removes_idle [OF assms(1) [unfolded sweep_def] this assms(2-5)] show ?thesis .
qed

text \<open>
  A GOODBYE from the client, handled without an exception, removes the record; and a HELLO for
  an id that is not in the table is handled against a new record made by \<^verbatim>\<open>Session\<close>
  (\<^verbatim>\<open>expected_seq\<close> and clock at 0), stored at the end of the table.
\<close>

lemma goodbye_removes_session:
  assumes "parse_message d = Some ((CMD_GOODBYE, n, sid, lclock, ts), payload)"
    and "map_of (sessions srv) sid = Some s"
    and "handle_packet e srv d a w = (None, srv1, w1)"
  shows "map_of (sessions srv1) sid = None"
  using assms
  by (auto simp: handle_packet_def CMD_GOODBYE_def CMD_HELLO_def CMD_DATA_def delete_conv'
      split: prod.splits option.splits)

lemma update_absent:
  "map_of al k = None \<Longrightarrow> AList.update k v al = al @ [(k, v)]"
  by (induction al) (auto split: if_splits)

lemma update_last:
  "map_of al k = None \<Longrightarrow> AList.update k v' (al @ [(k, v)]) = al @ [(k, v')]"
  by (induction al) (auto split: if_splits)

lemma hello_after_removal_is_fresh:
  assumes "parse_message d = Some ((CMD_HELLO, n, sid, lclock, ts), payload)"
    and "map_of (sessions srv) sid = None"
  shows "handle_packet e srv d a w =
    (case Session e sid a w of (s0, w0) \<Rightarrow>
       case handle_hello e s0 (CMD_HELLO, n, lclock, ts) w0 of (r, s', w2) \<Rightarrow>
         (r, srv\<lparr>sessions := sessions srv @ [(sid, s')]\<rparr>, w2))"
  using assms
  by (simp add: handle_packet_def update_absent update_last map_add_def split: prod.splits)

section \<open>The client\<close>

lemma parse_message_c_datagram:
  assumes "fits 8 command" "fits 32 seq" "fits 32 sid" "fits 64 clock" "fits 64 timestamp"
  shows "parse_message_c c (datagram command seq sid clock timestamp payload) =
     (if sid = session_id_c c then Some ((command, seq, clock, timestamp), payload) else None)"
proof -
  obtain hdr where packed: "struct_pack MAGIC VERSION command seq sid clock timestamp = Inr hdr"
    using assms by (simp add: struct_pack_def fits_MAGIC fits_VERSION)
  then have "datagram command seq sid clock timestamp payload = hdr @ payload"
    by (simp add: datagram_def)
  with parse_message_c_pack [OF packed] show ?thesis
    by simp
qed

lemma listen_server_pending_ack:
  assumes "running_c c" and "parse_message_c c d = Some ((command, n, lclock, ts), payload)"
  shows "\<not> pending_ack (fst (listen_server e c (Some d) w))"
  using assms
  by (simp add: listen_server_def update_clock_c_value Let_def time_time_def split: prod.splits)

lemma check_timeout_c_disarmed: "\<not> pending_ack c \<Longrightarrow> check_timeout_c e c w = (c, w)"
  by (simp add: check_timeout_c_def)

text \<open>
  Claim C10. For every datagram the client's \<^verbatim>\<open>parse_message\<close> accepts (magic, version and
  the client's own session id), whatever its command and whatever the client's state, a pass
  of the listener ends with \<^verbatim>\<open>pending_ack\<close> cleared; a pass of the watchdog on the resulting
  client then changes nothing, at any time.
\<close>

theorem valid_packet_clears_pending_ack:
  assumes "running_c c" and "parse_message_c c d = Some ((command, n, lclock, ts), payload)"
  shows "case listen_server e c (Some d) w of (c1, w1) \<Rightarrow>
           \<not> pending_ack c1 \<and> (\<forall>w2. check_timeout_c e c1 w2 = (c1, w2))"
  using listen_server_pending_ack [OF assms, where e = e and w = w]
  by (auto simp: check_timeout_c_disarmed split: prod.splits)

theorem valid_packet_clears_pending_ack_witness:
  "running_c (example_client\<lparr>state := ''READY'', pending_ack := True\<rparr>)
   \<and> parse_message_c (example_client\<lparr>state := ''READY'', pending_ack := True\<rparr>)
        (datagram CMD_HELLO 0 7 4 0 []) = Some ((CMD_HELLO, 0, 4, 0), [])
   \<and> \<not> pending_ack (fst (listen_server example_env
          (example_client\<lparr>state := ''READY'', pending_ack := True\<rparr>)
          (Some (datagram CMD_HELLO 0 7 4 0 [])) example_io))"
proof -
  let ?c = "example_client\<lparr>state := ''READY'', pending_ack := True\<rparr>"
  have run: "running_c ?c"
    by (simp add: example_client_def UDPClient_def)
  have parsed: "parse_message_c ?c (datagram CMD_HELLO 0 7 4 0 []) = Some ((CMD_HELLO, 0, 4, 0), [])"
    by (simp add: parse_message_c_datagram fits_def CMD_HELLO_def example_client_def UDPClient_def)
  from valid_packet_clears_pending_ack [OF run parsed, where e = example_env and w = example_io]
    run parsed
  show ?thesis
    by (simp split: prod.splits)
qed

lemma run_end_stopped: "\<not> running_c c \<Longrightarrow> run_end e c w = (None, c, print Eof w)"
  by (simp add: run_end_def)

lemma sent_print: "sent (outputs (print r w)) = sent (outputs w)"
  by (simp add: print_def sent_append)

lemma client_step_stopped:
  assumes "\<not> running_c c"
  shows "case client_step e (c, m, w) a of (c1, m1, w1) \<Rightarrow>
           \<not> running_c c1 \<and> sent (outputs w1) = sent (outputs w)"
proof (cases m)
  case In_loop
  with assms show ?thesis
    by (cases a)
       (simp_all add: listen_server_def check_timeout_c_def leave_loop_def run_end_stopped sent_print)
next
  case Returned
  with assms show ?thesis by simp
next
  case (Crashed x)
  with assms show ?thesis by simp
qed

lemma client_run_stopped:
  "\<not> running_c c \<Longrightarrow>
   case client_run e (c, m, w) acts of (c1, m1, w1) \<Rightarrow>
     \<not> running_c c1 \<and> sent (outputs w1) = sent (outputs w)"
proof (induction acts arbitrary: c m w)
  case Nil
  then show ?case by (simp add: client_run_def)
next
  case (Cons a acts)
  obtain c1 m1 w1 where step: "client_step e (c, m, w) a = (c1, m1, w1)"
    by (cases "client_step e (c, m, w) a") auto
  with client_step_stopped [OF Cons.prems, where e = e and m = m and w = w and a = a]
  have stopped: "\<not> running_c c1" and same: "sent (outputs w1) = sent (outputs w)"
    by simp_all
  from Cons.IH [OF stopped, where m = m1 and w = w1] step same show ?case
    by (simp add: client_run_def)
qed

text \<open>
  Claim C7. Let the client be in state \<^verbatim>\<open>WAIT_HELLO\<close> or \<^verbatim>\<open>WAIT_ALIVE\<close>, running, with
  \<^verbatim>\<open>pending_ack\<close> set, and let the watchdog read a time more than \<^verbatim>\<open>self.timeout\<close> after
  \<^verbatim>\<open>last_sent_time\<close>. That pass of the watchdog clears \<^verbatim>\<open>self.running\<close> and sends nothing,
  and in every continuation (any passes of the listener, the watchdog and the main loop, and
  the end of \<^verbatim>\<open>run\<close>) the client stays stopped and no datagram is sent, so no GOODBYE.
\<close>

theorem ack_timeout_terminates_silently:
  assumes "state c = ''WAIT_HELLO'' \<or> state c = ''WAIT_ALIVE''"
    and "running_c c" and "pending_ack c"
    and "wall e (ticks w) - last_sent_time c > timeout c"
  shows "case client_step e (c, In_loop, w) Watchdog of (c1, m1, w1) \<Rightarrow>
           \<not> running_c c1 \<and> sent (outputs w1) = sent (outputs w)
         \<and> (\<forall>acts. case client_run e (c1, m1, w1) acts of (c2, m2, w2) \<Rightarrow>
               \<not> running_c c2 \<and> sent (outputs w2) = sent (outputs w))"
proof -
  have step: "client_step e (c, In_loop, w) Watchdog =
      (c\<lparr>running_c := False\<rparr>, In_loop, print Timeout_no_response (w\<lparr>ticks := Suc (ticks w)\<rparr>))"
    using assms(2-4) by (simp add: check_timeout_c_def time_time_def)
  have later: "case client_run e
        (c\<lparr>running_c := False\<rparr>, In_loop, print Timeout_no_response (w\<lparr>ticks := Suc (ticks w)\<rparr>)) acts of
      (c2, m2, w2) \<Rightarrow> \<not> running_c c2 \<and> sent (outputs w2) = sent (outputs w)" for acts
    using client_run_stopped [where c = "c\<lparr>running_c := False\<rparr>" and e = e and m = In_loop
        and w = "print Timeout_no_response (w\<lparr>ticks := Suc (ticks w)\<rparr>)" and acts = acts]
    by (simp add: sent_print split: prod.splits)
  from step later show ?thesis
    by (simp add: sent_print)
qed

text \<open>The client of the examples after \<^verbatim>\<open>run\<close> has sent its HELLO at time 0.\<close>

lemma run_begin_example:
  "run_begin idle_env example_client example_io =
     (None,
      example_client\<lparr>state := ''WAIT_HELLO'', logical_clock_c := 1, last_sent_time := 0,
        pending_ack := True\<rparr>,
      \<lparr>ticks = 2, outputs = [Sendto (datagram CMD_HELLO 0 7 1 0 []) (''localhost'', 9000),
                             Print (Session_started 7)]\<rparr>)"
  by (simp add: run_begin_def send_message_c_def create_message_c_def update_clock_c_value
      time_time_def print_def sendto_def py_int_def Let_def example_defs idle_env_def UDPClient_def
      struct_pack_datagram fits_def)

theorem ack_timeout_terminates_silently_witness:
  "state (fst (snd (run_begin idle_env example_client example_io))) = ''WAIT_HELLO''
   \<and> running_c (fst (snd (run_begin idle_env example_client example_io)))
   \<and> pending_ack (fst (snd (run_begin idle_env example_client example_io)))
   \<and> wall idle_env (ticks (snd (snd (run_begin idle_env example_client example_io))))
       - last_sent_time (fst (snd (run_begin idle_env example_client example_io)))
       > timeout (fst (snd (run_begin idle_env example_client example_io)))
   \<and> sent (outputs (snd (snd (client_run idle_env
        (client_step idle_env
           (fst (snd (run_begin idle_env example_client example_io)), In_loop,
            snd (snd (run_begin idle_env example_client example_io))) Watchdog)
        [Main_loop ''hello'', Listener None, Keyboard_interrupt])))) =
     [(datagram CMD_HELLO 0 7 1 0 [], (''localhost'', 9000))]"
proof -
  let ?c = "fst (snd (run_begin idle_env example_client example_io))"
  let ?w = "snd (snd (run_begin idle_env example_client example_io))"
  have st: "state ?c = ''WAIT_HELLO'' \<or> state ?c = ''WAIT_ALIVE''"
    and st': "state ?c = ''WAIT_HELLO''"
    and run: "running_c ?c" and pend: "pending_ack ?c"
    and late: "wall idle_env (ticks ?w) - last_sent_time ?c > timeout ?c"
    and before: "sent (outputs ?w) = [(datagram CMD_HELLO 0 7 1 0 [], (''localhost'', 9000))]"
    unfolding run_begin_example
    by (simp_all add: example_client_def UDPClient_def idle_env_def)
  from ack_timeout_terminates_silently [OF st run pend late] st' run pend late before
  show ?thesis
    by (simp add: case_prod_beta)
qed

text \<open>
  The voluntary exit, for comparison: in state \<^verbatim>\<open>READY\<close> an empty line or \<^verbatim>\<open>q\<close> leaves the
  loop while \<^verbatim>\<open>self.running\<close> still holds, and \<^verbatim>\<open>run\<close> sends a GOODBYE.
\<close>

lemma voluntary_quit_sends_goodbye:
  assumes "state c = ''READY''" and "running_c c"
    and "line = [] \<or> line = ''q'' \<or> line = ''Q''"
    and "struct_pack MAGIC VERSION CMD_GOODBYE (seq_num c) (session_id_c c) (logical_clock_c c + 1)
           (py_int (wall e (ticks w) * 1000)) = Inr hdr"
  shows "case client_step e (c, In_loop, w) (Main_loop line) of (c1, m1, w1) \<Rightarrow>
           m1 = Returned \<and> \<not> running_c c1
         \<and> sent (outputs w1) = sent (outputs w) @ [(hdr, server_addr c)]"
  using assms
  by (auto simp: run_loop_body_def leave_loop_def run_end_def send_message_c_def
      create_message_c_def update_clock_c_value time_time_def print_def sendto_def Let_def
      sent_append)

end
